theory Spec2Isabelle
  imports Complex_Main "HOL-Library.AList"
begin

section \<open>Python values, exceptions and the Estimate record\<close>

text \<open>
  The program is dynamically typed: a parsed JSON document, the fields of an
  \<^verbatim>\<open>Estimate\<close> and the result of \<^verbatim>\<open>eval\<close> hold arbitrary Python values. The type
  parameter \<open>'n\<close> stands for Python's numbers (\<^verbatim>\<open>int\<close> and \<^verbatim>\<open>float\<close>, which
  \<^verbatim>\<open>isinstance(x, (int, float))\<close> accepts alike; \<^verbatim>\<open>bool\<close> is a subclass of
  \<^verbatim>\<open>int\<close>), with its own multiplication and comparison. Strings are ASCII.
\<close>

datatype 'n pyval =
    PNone
  | PNum 'n
  | PStr string
  | PList "'n pyval list"
  | PDict "(string \<times> 'n pyval) list"

datatype pyexc =
    ValueError string
  | TypeError string
  | KeyError string
  | BaseException string

text \<open>
  \<^verbatim>\<open>
  @dataclass
  class Estimate:
      lower: float
      value: float
      upper: float
      unit: str
      name: str | None = None
      reasoning_trace: Any | None = None
  \<close>
  The annotations of a dataclass are not checked when it is built, so every field
  holds a Python value.
\<close>

record 'n Estimate =
  lower :: "'n pyval"
  "value" :: "'n pyval"
  upper :: "'n pyval"
  unit :: "'n pyval"
  name :: "'n pyval"
  reasoning_trace :: "'n pyval"

section \<open>String operations of Python\<close>

definition is_space :: "char \<Rightarrow> bool" where
  \<comment> \<open>the ASCII characters for which \<^verbatim>\<open>str.isspace\<close> holds: codes 9 to 13, 28 to 32\<close>
  "is_space c = (c \<in> set [CHR 0x09, CHR 0x0A, CHR 0x0B, CHR 0x0C, CHR 0x0D,
                            CHR 0x1C, CHR 0x1D, CHR 0x1E, CHR 0x1F, CHR 0x20])"

definition char_lower :: "char \<Rightarrow> char" where
  "char_lower c =
     (case map_of (zip ''ABCDEFGHIJKLMNOPQRSTUVWXYZ'' ''abcdefghijklmnopqrstuvwxyz'') c of
        Some l \<Rightarrow> l
      | None \<Rightarrow> c)"

definition str_lower :: "string \<Rightarrow> string" where
  "str_lower s = map char_lower s"

definition str_strip :: "string \<Rightarrow> string" where
  "str_strip s = rev (dropWhile is_space (rev (dropWhile is_space s)))"

definition startswith :: "string \<Rightarrow> string \<Rightarrow> bool" where
  "startswith s p = (take (length p) s = p)"

definition endswith :: "string \<Rightarrow> string \<Rightarrow> bool" where
  "endswith s p = (length p \<le> length s \<and> drop (length s - length p) s = p)"

definition quoted :: "string \<Rightarrow> string" where
  \<comment> \<open>the text between two apostrophes, as the messages of Python show a name\<close>
  "quoted s = CHR 0x27 # s @ [CHR 0x27]"

section \<open>The unit converter and the scorer\<close>

text \<open>
  What \<^verbatim>\<open>convert_units\<close> and \<^verbatim>\<open>calculate_score\<close> call without defining it:
  \<^item> \<open>completion\<close>: the answer of the completion service to the prompt of
    \<^verbatim>\<open>convert_units\<close>, a fixed template around the two unit texts;
  \<^item> \<open>py_eval\<close>: the builtin \<^verbatim>\<open>eval\<close> on the answer: it returns a value, raises an
    exception of class \<^verbatim>\<open>Exception\<close> whose \<^verbatim>\<open>str\<close> is the message, or raises one
    outside that class (\<^verbatim>\<open>SystemExit\<close>, \<^verbatim>\<open>KeyboardInterrupt\<close>);
  \<^item> \<open>py_str\<close>: the builtin \<^verbatim>\<open>str\<close> on a value that is not a string.
  One call of \<^verbatim>\<open>calculate_score\<close> makes one call of each, so a function of the
  argument covers every behaviour of the service and of the evaluator.
\<close>

datatype 'n eval_result = Returns "'n pyval" | Raises string | Escapes string

record 'n scorer_env =
  completion :: "string \<Rightarrow> string \<Rightarrow> string"
  py_eval :: "string \<Rightarrow> 'n eval_result"
  py_str :: "'n pyval \<Rightarrow> string"

definition fmt :: "'n scorer_env \<Rightarrow> 'n pyval \<Rightarrow> string" where
  \<comment> \<open>a value interpolated into an f-string\<close>
  "fmt env v = (case v of PStr s \<Rightarrow> s | _ \<Rightarrow> py_str env v)"

text \<open>
  \<^verbatim>\<open>
  response = completion_text("claude-3-5-sonnet-20240620", [...], temperature=0.0)
  if response == "same":
      return 1
  elif response == "invalid":
      return "invalid"
  else:
      try:
          return eval(response)
      except Exception as e:
          return "invalid: " + str(e)
  \<close>
\<close>

definition convert_units ::
  "('n::one) scorer_env \<Rightarrow> 'n pyval \<Rightarrow> 'n pyval \<Rightarrow> pyexc + 'n pyval" where
  "convert_units env unit1 unit2 =
     (let response = completion env (fmt env unit1) (fmt env unit2) in
      if response = ''same'' then Inr (PNum 1)
      else if response = ''invalid'' then Inr (PStr ''invalid'')
      else (case py_eval env response of
              Returns v \<Rightarrow> Inr v
            | Raises msg \<Rightarrow> Inr (PStr (''invalid: '' @ msg))
            | Escapes b \<Rightarrow> Inl (BaseException b)))"

text \<open>
  The product and the comparison of two numbers; other operands raise
  \<^verbatim>\<open>TypeError\<close> (the message is cut before the operand types; the repetition of a
  sequence by an \<^verbatim>\<open>int\<close> and the comparison of two strings or two lists are left
  out: no estimate of \<^verbatim>\<open>parse_estimate\<close> or of the dataset holds them).
\<close>

definition py_mul :: "('n::times) pyval \<Rightarrow> 'n pyval \<Rightarrow> pyexc + 'n pyval" where
  "py_mul a b = (case (a, b) of
       (PNum x, PNum y) \<Rightarrow> Inr (PNum (x * y))
     | _ \<Rightarrow> Inl (TypeError ''unsupported operand type(s) for *''))"

definition py_lt :: "('n::ord) pyval \<Rightarrow> 'n pyval \<Rightarrow> pyexc + bool" where
  "py_lt a b = (case (a, b) of
       (PNum x, PNum y) \<Rightarrow> Inr (x < y)
     | _ \<Rightarrow> Inl (TypeError (quoted ''<'' @ '' not supported between instances'')))"

text \<open>
  \<^verbatim>\<open>
  def calculate_score(estimated: Estimate | str, correct: Estimate) -> tuple[float, str]:
      if isinstance(estimated, str):
          return 0, estimated
      conversion_factor = convert_units(estimated.unit, correct.unit)
      if isinstance(conversion_factor, str):
          if conversion_factor.lower().strip() == "same":
              return 1, ""
          elif conversion_factor.lower().strip().startswith("invalid"):
              return 0, f"Invalid units: {estimated.unit} and {correct.unit}. Conversion model returned: {conversion_factor[7:]}"
          else:
              raise ValueError(f"Unexpected response from conversion model: {conversion_factor}")
      estimated_value = estimated.value * conversion_factor
      if correct.lower < estimated_value < correct.upper:
          return 1, ""
      else:
          return 0, ""
  \<close>
  The estimate is \<open>Inl\<close> of the traceback text when the estimator failed. The chained
  comparison evaluates its second half only when the first holds.
\<close>

definition calculate_score ::
  "('n::{one,times,ord}) scorer_env \<Rightarrow> string + 'n Estimate \<Rightarrow> 'n Estimate \<Rightarrow> pyexc + int \<times> string" where
  "calculate_score env estimated correct =
     (case estimated of
        Inl s \<Rightarrow> Inr (0, s)
      | Inr est \<Rightarrow>
         (case convert_units env (unit est) (unit correct) of
            Inl e \<Rightarrow> Inl e
          | Inr (PStr cf) \<Rightarrow>
              if str_strip (str_lower cf) = ''same'' then Inr (1, '''')
              else if startswith (str_strip (str_lower cf)) ''invalid'' then
                Inr (0, ''Invalid units: '' @ fmt env (unit est) @ '' and '' @ fmt env (unit correct)
                        @ ''. Conversion model returned: '' @ drop 7 cf)
              else Inl (ValueError (''Unexpected response from conversion model: '' @ cf))
          | Inr cf \<Rightarrow>
              (case py_mul (value est) cf of
                 Inl e \<Rightarrow> Inl e
               | Inr estimated_value \<Rightarrow>
                  (case py_lt (lower correct) estimated_value of
                     Inl e \<Rightarrow> Inl e
                   | Inr lower_ok \<Rightarrow>
                      if \<not> lower_ok then Inr (0, '''')
                      else (case py_lt estimated_value (upper correct) of
                              Inl e \<Rightarrow> Inl e
                            | Inr upper_ok \<Rightarrow> if upper_ok then Inr (1, '''') else Inr (0, ''''))))))"

section \<open>The estimate parser\<close>

text \<open>
  \<^verbatim>\<open>str.find\<close> and \<^verbatim>\<open>str.rfind\<close> for a needle of one character (the source looks for
  a brace), the slice \<^verbatim>\<open>text[a:b]\<close> with Python's reading of a negative or too large
  index, and \<^verbatim>\<open>sep.join\<close>.
\<close>

definition py_find :: "char \<Rightarrow> string \<Rightarrow> int" where
  "py_find c s = (if c \<in> set s then int (length (takeWhile (\<lambda>x. x \<noteq> c) s)) else - 1)"

definition py_rfind :: "char \<Rightarrow> string \<Rightarrow> int" where
  "py_rfind c s =
     (if c \<in> set s then int (length s) - 1 - int (length (takeWhile (\<lambda>x. x \<noteq> c) (rev s)))
      else - 1)"

definition py_slice :: "string \<Rightarrow> int \<Rightarrow> int \<Rightarrow> string" where
  "py_slice s a b =
     (let n = int (length s);
          lo = (if a < 0 then max 0 (a + n) else min a n);
          hi = (if b < 0 then max 0 (b + n) else min b n)
      in take (nat (hi - lo)) (drop (nat lo) s))"

fun py_join :: "string \<Rightarrow> string list \<Rightarrow> string" where
  "py_join sep [] = []"
| "py_join sep [x] = x"
| "py_join sep (x # y # ys) = x @ sep @ py_join sep (y # ys)"

text \<open>
  What \<^verbatim>\<open>parse_estimate\<close> calls without defining it:
  \<^item> \<open>json_loads\<close>: \<^verbatim>\<open>json.loads\<close> on a text that starts with a brace, where it returns
    a \<^verbatim>\<open>dict\<close> (an association list in the order of the document, \<^verbatim>\<open>true\<close> and
    \<^verbatim>\<open>false\<close> being the numbers 1 and 0) or raises \<^verbatim>\<open>JSONDecodeError\<close> (\<open>None\<close>);
  \<^item> \<open>str_to_float\<close>: \<^verbatim>\<open>float\<close> on a string, \<open>None\<close> where it raises \<^verbatim>\<open>ValueError\<close>;
  \<^item> \<open>set_iter\<close>: the order in which Python iterates over the set of the given
    strings, which depends on their hashes.
\<close>

record 'n parser_env =
  json_loads :: "string \<Rightarrow> (string \<times> 'n pyval) list option"
  str_to_float :: "string \<Rightarrow> 'n option"
  set_iter :: "string list \<Rightarrow> string list"

definition type_name :: "'n pyval \<Rightarrow> string" where
  "type_name v = (case v of
       PNone \<Rightarrow> ''NoneType'' | PNum _ \<Rightarrow> ''float'' | PStr _ \<Rightarrow> ''str''
     | PList _ \<Rightarrow> ''list'' | PDict _ \<Rightarrow> ''dict'')"

definition py_float :: "'n parser_env \<Rightarrow> 'n pyval \<Rightarrow> pyexc + 'n" where
  \<comment> \<open>the builtin \<^verbatim>\<open>float\<close>: a string is parsed, \<^verbatim>\<open>None\<close>, a list or a dict is a \<^verbatim>\<open>TypeError\<close>\<close>
  "py_float env v = (case v of
       PNum x \<Rightarrow> Inr x
     | PStr s \<Rightarrow> (case str_to_float env s of
                    Some x \<Rightarrow> Inr x
                  | None \<Rightarrow> Inl (ValueError (''could not convert string to float: '' @ quoted s)))
     | _ \<Rightarrow> Inl (TypeError (''float() argument must be a string or a real number, not ''
                             @ quoted (type_name v))))"

text \<open>
  \<^verbatim>\<open>
  numerical_fields = {"lower", "value", "upper"}
  for field in numerical_fields:
      if not isinstance(data[field], (int, float)):
          try:
              data[field] = float(data[field])
          except ValueError as e:
              raise ValueError(f"Field '{field}' is not a valid number") from e
  \<close>
  The handler catches \<^verbatim>\<open>ValueError\<close> only; any other exception of \<^verbatim>\<open>float\<close> leaves
  the loop as it is.
\<close>

fun coerce_fields ::
  "'n parser_env \<Rightarrow> string list \<Rightarrow> (string \<times> 'n pyval) list \<Rightarrow> pyexc + (string \<times> 'n pyval) list" where
  "coerce_fields env [] data = Inr data"
| "coerce_fields env (field # rest) data =
     (case map_of data field of
        None \<Rightarrow> Inl (KeyError (quoted field))
      | Some (PNum x) \<Rightarrow> coerce_fields env rest data
      | Some v \<Rightarrow>
         (case py_float env v of
            Inl (ValueError m) \<Rightarrow> Inl (ValueError (''Field '' @ quoted field @ '' is not a valid number''))
          | Inl e \<Rightarrow> Inl e
          | Inr x \<Rightarrow> coerce_fields env rest (AList.update field (PNum x) data)))"

text \<open>
  The number that the loop leaves in a field that holds \<open>v\<close>, where it leaves one:
  a number is kept, a string is parsed by \<^verbatim>\<open>float\<close>.
\<close>

definition numeric_value :: "'n parser_env \<Rightarrow> 'n pyval \<Rightarrow> 'n option" where
  "numeric_value env v = (case v of PNum x \<Rightarrow> Some x | PStr s \<Rightarrow> str_to_float env s | _ \<Rightarrow> None)"

text \<open>
  \<^verbatim>\<open>Estimate(**data)\<close>: the generated constructor takes the six fields as keywords,
  the last two with default \<^verbatim>\<open>None\<close>, and rejects the first keyword it does not know.
\<close>

definition estimate_fields :: "string list" where
  "estimate_fields = [''lower'', ''value'', ''upper'', ''unit'', ''name'', ''reasoning_trace'']"

definition Estimate_init :: "(string \<times> 'n pyval) list \<Rightarrow> pyexc + 'n Estimate" where
  "Estimate_init data =
     (case filter (\<lambda>k. k \<notin> set estimate_fields) (map fst data) of
        k # ks \<Rightarrow> Inl (TypeError (''Estimate.__init__() got an unexpected keyword argument '' @ quoted k))
      | [] \<Rightarrow>
         (case (map_of data ''lower'', map_of data ''value'', map_of data ''upper'', map_of data ''unit'') of
            (Some l, Some v, Some u, Some un) \<Rightarrow>
              Inr \<lparr>lower = l, value = v, upper = u, unit = un,
                   name = (case map_of data ''name'' of Some x \<Rightarrow> x | None \<Rightarrow> PNone),
                   reasoning_trace = (case map_of data ''reasoning_trace'' of Some x \<Rightarrow> x | None \<Rightarrow> PNone)\<rparr>
          | _ \<Rightarrow> Inl (TypeError ''Estimate.__init__() missing required positional arguments'')))"

text \<open>
  \<^verbatim>\<open>
  def parse_estimate(text: str) -> Estimate:
      json_start = text.find("{")
      json_end = text.rfind("}") + 1
      json_text = text[json_start:json_end]
      if not json_text.startswith("{") or not json_text.endswith("}"):
          raise ValueError("Text is not a valid JSON object")
      try:
          data = json.loads(json_text)
      except json.JSONDecodeError as e:
          raise ValueError("Text is not a valid JSON object") from e
      if "lower" not in data or "value" not in data or "upper" not in data or "unit" not in data:
          raise ValueError(f"Text is missing the fields: {', '.join(set(data.keys()) - {'lower', 'value', 'upper', 'unit'})}")
      numerical_fields = {"lower", "value", "upper"}
      for field in numerical_fields: ...
      return Estimate(**data)
  \<close>
\<close>

definition required_fields :: "string list" where
  "required_fields = [''lower'', ''value'', ''upper'', ''unit'']"

definition numerical_fields :: "string list" where
  "numerical_fields = [''lower'', ''value'', ''upper'']"

definition json_span :: "string \<Rightarrow> string" where
  "json_span text =
     (let json_start = py_find CHR ''{'' text;
          json_end = py_rfind CHR ''}'' text + 1
      in py_slice text json_start json_end)"

definition extra_keys :: "'n parser_env \<Rightarrow> (string \<times> 'n pyval) list \<Rightarrow> string list" where
  \<comment> \<open>\<^verbatim>\<open>set(data.keys()) - {'lower', 'value', 'upper', 'unit'}\<close> in the order of iteration\<close>
  "extra_keys env data =
     set_iter env (filter (\<lambda>k. k \<notin> set required_fields) (remdups (map fst data)))"

definition parse_estimate :: "'n parser_env \<Rightarrow> string \<Rightarrow> pyexc + 'n Estimate" where
  "parse_estimate env text =
     (let json_text = json_span text in
      if \<not> startswith json_text ''{'' \<or> \<not> endswith json_text ''}'' then
        Inl (ValueError ''Text is not a valid JSON object'')
      else
        (case json_loads env json_text of
           None \<Rightarrow> Inl (ValueError ''Text is not a valid JSON object'')
         | Some data \<Rightarrow>
            if ''lower'' \<notin> set (map fst data) \<or> ''value'' \<notin> set (map fst data)
               \<or> ''upper'' \<notin> set (map fst data) \<or> ''unit'' \<notin> set (map fst data) then
              Inl (ValueError (''Text is missing the fields: '' @ py_join '', '' (extra_keys env data)))
            else
              (case coerce_fields env (set_iter env numerical_fields) data of
                 Inl e \<Rightarrow> Inl e
               | Inr coerced \<Rightarrow> Estimate_init coerced)))"

section \<open>The evaluation run\<close>

text \<open>
  \<^verbatim>\<open>
  @dataclass
  class Estimator:
      fn: Callable[[str], Estimate]
      name: str

  @dataclass
  class QueryEvalResult:
      question: str
      estimate: Estimate | str
      estimator_name: str
      correct_estimate: Estimate
      log: Any | None = None

  @dataclass
  class EvalResult:
      estimator_name: str
      score: float
      queries_incorrect: list[QueryEvalResult]
      queries_correct: list[QueryEvalResult]
  \<close>
  A field whose name is taken already carries a prime. The estimator's function
  returns an estimate or raises.
\<close>

record 'n Estimator =
  fn :: "string \<Rightarrow> pyexc + 'n Estimate"
  name' :: string

record 'n QueryEvalResult =
  question :: string
  estimate :: "string + 'n Estimate"
  estimator_name :: string
  correct_estimate :: "'n Estimate"
  log' :: "string list"

record 'n EvalResult =
  estimator_name' :: string
  score :: real
  queries_incorrect :: "'n QueryEvalResult list"
  queries_correct :: "'n QueryEvalResult list"

text \<open>
  What the run reads from outside: the rows of \<^verbatim>\<open>load_eval\<close> (the questions with
  their reference estimates, in the order of the file), the text that the
  \<^verbatim>\<open>traceback\<close> module prints for an exception, and the time stamp of the clock.
\<close>

record 'n run_env =
  load_eval :: "(string \<times> 'n Estimate) list"
  format_exception :: "pyexc \<Rightarrow> string"
  time_stamp :: string

text \<open>
  \<^verbatim>\<open>
  def process_estimate(args):
      i, correct_estimate = args
      question = questions[i]
      log = []
      try:
          estimated_estimate = estimator.fn(question)
      except Exception as e:
          estimated_estimate = ''.join(traceback.format_exception(type(e), e, e.__traceback__))
          log.append(traceback.format_exc())
      query_result = QueryEvalResult(question, estimated_estimate, estimator.name, correct_estimate, log)
      score, error_log = calculate_score(estimated_estimate, correct_estimate)
      if error_log:
          log.append(error_log)
      query_result.log = log
      return query_result, score
  \<close>
  Only the call of the estimator stands in the \<^verbatim>\<open>try\<close>: an exception of
  \<^verbatim>\<open>calculate_score\<close> leaves \<^verbatim>\<open>process_estimate\<close>.
\<close>

definition process_estimate ::
  "('n::{one,times,ord}) scorer_env \<Rightarrow> 'n run_env \<Rightarrow> 'n Estimator \<Rightarrow> string \<times> 'n Estimate
     \<Rightarrow> pyexc + 'n QueryEvalResult \<times> int" where
  "process_estimate senv renv estimator row =
     (case row of (q, correct) \<Rightarrow>
       (case (case fn estimator q of
                Inr est \<Rightarrow> Inr (Inr est, [])
              | Inl (BaseException b) \<Rightarrow> Inl (BaseException b)
              | Inl e \<Rightarrow> Inr (Inl (format_exception renv e), [format_exception renv e])) of
          Inl e \<Rightarrow> Inl e
        | Inr (estimated, log0) \<Rightarrow>
           (case calculate_score senv estimated correct of
              Inl e \<Rightarrow> Inl e
            | Inr (sc, error_log) \<Rightarrow>
               Inr (\<lparr>question = q, estimate = estimated, estimator_name = name' estimator,
                     correct_estimate = correct,
                     log' = (if error_log \<noteq> [] then log0 @ [error_log] else log0)\<rparr>, sc))))"

text \<open>
  The rows are processed in order (the thread pool's \<^verbatim>\<open>map\<close> yields in the order of
  its input too); the first exception ends the run.
\<close>

fun process_all :: "('a \<Rightarrow> pyexc + 'b) \<Rightarrow> 'a list \<Rightarrow> pyexc + 'b list" where
  "process_all f [] = Inr []"
| "process_all f (x # xs) =
     (case f x of
        Inl e \<Rightarrow> Inl e
      | Inr r \<Rightarrow> (case process_all f xs of Inl e \<Rightarrow> Inl e | Inr rs \<Rightarrow> Inr (r # rs)))"

text \<open>
  \<^verbatim>\<open>
  def generate_eval_result(estimator, progress=True, parallel=True) -> EvalResult:
      questions, estimates = load_eval()
      ...
      results = [process_estimate(item) for item in enumerate(estimates)]
      queries, scores = zip(*results)
      total_score = sum(scores)
      queries_correct = [query for query, score in zip(queries, scores) if score == 1]
      queries_incorrect = [query for query, score in zip(queries, scores) if score == 0]
      avg_score = total_score / len(estimates) if estimates else 0
      return EvalResult(f"{estimator.name}_{datetime.now().strftime(...)}", avg_score,
                        queries_incorrect, queries_correct)
  \<close>
  \<^verbatim>\<open>zip(*results)\<close> yields the tuple of the queries and the tuple of the scores when
  there is a result, and nothing when there is none: the assignment to two names
  then raises \<^verbatim>\<open>ValueError\<close>. The quotient is exact here; Python rounds it to a float.
\<close>

definition unzip_results :: "('a \<times> 'b) list \<Rightarrow> pyexc + 'a list \<times> 'b list" where
  "unzip_results results =
     (case results of
        [] \<Rightarrow> Inl (ValueError ''not enough values to unpack (expected 2, got 0)'')
      | r # rs \<Rightarrow> Inr (map fst results, map snd results))"

definition generate_eval_result ::
  "('n::{one,times,ord}) scorer_env \<Rightarrow> 'n run_env \<Rightarrow> 'n Estimator \<Rightarrow> pyexc + 'n EvalResult" where
  "generate_eval_result senv renv estimator =
     (let estimates = map snd (load_eval renv) in
      case process_all (process_estimate senv renv estimator) (load_eval renv) of
        Inl e \<Rightarrow> Inl e
      | Inr results \<Rightarrow>
         (case unzip_results results of
            Inl e \<Rightarrow> Inl e
          | Inr (queries, scores) \<Rightarrow>
             (let total_score = sum_list scores;
                  queries_correct = map fst (filter (\<lambda>(query, sc). sc = 1) (zip queries scores));
                  queries_incorrect = map fst (filter (\<lambda>(query, sc). sc = 0) (zip queries scores));
                  avg_score = (if estimates \<noteq> [] then real_of_int total_score / real (length estimates)
                               else 0)
              in Inr \<lparr>estimator_name' = name' estimator @ ''_'' @ time_stamp renv,
                      score = avg_score,
                      queries_incorrect = queries_incorrect,
                      queries_correct = queries_correct\<rparr>)))"

section \<open>Concrete environments\<close>

text \<open>
  A completion service that answers \<open>response\<close> and an evaluator that yields
  \<open>outcome\<close>; a \<^verbatim>\<open>json.loads\<close> that knows one document; estimates as the dataset
  holds them. They give the theorems below their concrete inputs.
\<close>

definition scripted_env :: "string \<Rightarrow> 'n eval_result \<Rightarrow> 'n scorer_env" where
  "scripted_env response outcome =
     \<lparr>completion = (\<lambda>u1 u2. response), py_eval = (\<lambda>s. outcome), py_str = (\<lambda>v. '''')\<rparr>"

definition scripted_parser ::
  "string \<Rightarrow> (string \<times> 'n pyval) list \<Rightarrow> (string \<times> 'n) list \<Rightarrow> 'n parser_env" where
  "scripted_parser doc data floats =
     \<lparr>json_loads = (\<lambda>s. if s = doc then Some data else None),
      str_to_float = map_of floats,
      set_iter = rev\<rparr>"

definition estimate_of :: "'n \<Rightarrow> 'n \<Rightarrow> 'n \<Rightarrow> string \<Rightarrow> 'n Estimate" where
  "estimate_of lo v hi u =
     \<lparr>lower = PNum lo, value = PNum v, upper = PNum hi, unit = PStr u,
      name = PNone, reasoning_trace = PNone\<rparr>"

section \<open>Properties of the scorer\<close>

lemma str_strip_invalid: "\<exists>t. str_strip (''invalid:'' @ r) = ''invalid:'' @ t"
proof -
  have front: "dropWhile is_space (''invalid:'' @ r) = ''invalid:'' @ r"
    by (simp add: is_space_def)
  have tail_kept: "dropWhile is_space '':dilavni'' = '':dilavni''"
    by (simp add: is_space_def)
  have "rev (''invalid:'' @ r) = rev r @ '':dilavni''" by simp
  then have "dropWhile is_space (rev (''invalid:'' @ r)) =
      (if \<forall>c\<in>set (rev r). is_space c then '':dilavni'' else dropWhile is_space (rev r) @ '':dilavni'')"
    using tail_kept by (simp only: dropWhile_append)
  then have "rev (dropWhile is_space (rev (''invalid:'' @ r))) =
      ''invalid:'' @ (if \<forall>c\<in>set (rev r). is_space c then [] else rev (dropWhile is_space (rev r)))"
    by (simp split: if_splits)
  then show ?thesis
    unfolding str_strip_def front by blast
qed

lemma invalid_message_classified:
  "startswith (str_strip (str_lower (''invalid: '' @ msg))) ''invalid''
   \<and> str_strip (str_lower (''invalid: '' @ msg)) \<noteq> ''same''"
proof -
  have "str_lower (''invalid: '' @ msg) = ''invalid:'' @ ('' '' @ str_lower msg)"
    by (simp add: str_lower_def char_lower_def)
  then obtain t where "str_strip (str_lower (''invalid: '' @ msg)) = ''invalid:'' @ t"
    using str_strip_invalid by metis
  then show ?thesis by (simp add: startswith_def)
qed



text \<open>
  Claim C1, as the code has it. When the completion service answers \<open>same\<close>,
  \<^verbatim>\<open>convert_units\<close> returns the factor 1 and \<^verbatim>\<open>calculate_score\<close> applies the range
  check to the value itself: the score is 1 with an empty diagnostic when
  \<open>lower < value < upper\<close> holds for the reference bounds and 0 with an empty
  diagnostic otherwise.
\<close>

theorem calculate_score_same_response:
  fixes v :: "'n::{monoid_mult,ord}"
  assumes "completion env (fmt env (unit est)) (fmt env (unit correct)) = ''same''"
    and "value est = PNum v" and "lower correct = PNum lo" and "upper correct = PNum hi"
  shows "convert_units env (unit est) (unit correct) = Inr (PNum 1)
       \<and> calculate_score env (Inr est) correct = Inr (if lo < v \<and> v < hi then 1 else 0, '''')"
  using assms by (simp add: calculate_score_def convert_units_def py_mul_def py_lt_def)

theorem calculate_score_same_response_witness:
  "completion (scripted_env ''same'' (Raises '''')) ''kg'' ''kg'' = ''same''
   \<and> calculate_score (scripted_env ''same'' (Raises '''')) (Inr (estimate_of 150 200 250 ''kg''))
        (estimate_of (150::int) 190 250 ''kg'') = Inr (1, '''')"
proof -
  let ?env = "scripted_env ''same'' (Raises '''') :: int scorer_env"
  let ?est = "estimate_of (150::int) 200 250 ''kg''"
  let ?ref = "estimate_of (150::int) 190 250 ''kg''"
  have h: "completion ?env (fmt ?env (unit ?est)) (fmt ?env (unit ?ref)) = ''same''"
    by (simp add: scripted_env_def)
  show ?thesis
    using calculate_score_same_response [OF h, of 200 150 250]
    by (simp add: estimate_of_def scripted_env_def)
qed

text \<open>
  Claim C1 as stated fails: the service answers \<open>same\<close> for kg and kg, the candidate
  value 100 lies outside the reference bounds 150 and 250, and the score is 0.
\<close>

theorem same_response_unconditional_counterexample:
  "completion (scripted_env ''same'' (Raises '''')) ''kg'' ''kg'' = ''same''
   \<and> calculate_score (scripted_env ''same'' (Raises '''')) (Inr (estimate_of 90 100 110 ''kg''))
        (estimate_of (150::int) 190 250 ''kg'') = Inr (0, '''')"
  by (simp add: calculate_score_def convert_units_def scripted_env_def estimate_of_def
      py_mul_def py_lt_def fmt_def)

text \<open>
  Claim C2 at the answer \<open>Same\<close> between two blanks. Trimmed and in lower case the
  answer is \<open>same\<close>, but \<^verbatim>\<open>convert_units\<close> compares the answer as it came and passes
  it to \<^verbatim>\<open>eval\<close>, whose \<^verbatim>\<open>NameError\<close> becomes an \<open>invalid\<close> text: kg against kg is
  scored 0 with an "Invalid units" diagnostic, for a value inside the bounds.
\<close>

theorem convert_units_exact_match_only:
  "str_strip (str_lower '' Same '') = ''same''
   \<and> convert_units (scripted_env '' Same '' (Raises (''name '' @ quoted ''Same'' @ '' is not defined'')))
        (PStr ''kg'') (PStr ''kg'' :: int pyval)
      = Inr (PStr (''invalid: name '' @ quoted ''Same'' @ '' is not defined''))
   \<and> calculate_score (scripted_env '' Same '' (Raises (''name '' @ quoted ''Same'' @ '' is not defined'')))
        (Inr (estimate_of 150 200 250 ''kg'')) (estimate_of (150::int) 190 250 ''kg'')
      = Inr (0, ''Invalid units: kg and kg. Conversion model returned: : name ''
                @ quoted ''Same'' @ '' is not defined'')"
  by (simp add: calculate_score_def convert_units_def scripted_env_def estimate_of_def
      fmt_def quoted_def str_strip_def str_lower_def char_lower_def is_space_def startswith_def)

text \<open>
  Claim C4, as the code has it. When the answer of the service is neither exactly
  \<open>same\<close> nor exactly \<open>invalid\<close> and \<^verbatim>\<open>eval\<close> raises an exception with message
  \<open>msg\<close> on it, \<^verbatim>\<open>convert_units\<close> returns the text \<open>invalid: msg\<close> and
  \<^verbatim>\<open>calculate_score\<close> returns the score 0 with an "Invalid units" diagnostic; it does
  not raise.
\<close>

theorem convert_units_eval_failure:
  assumes "completion env (fmt env (unit est)) (fmt env (unit correct)) = response"
    and "response \<noteq> ''same''" and "response \<noteq> ''invalid''"
    and "py_eval env response = Raises msg"
  shows "convert_units env (unit est) (unit correct) = Inr (PStr (''invalid: '' @ msg))
       \<and> calculate_score env (Inr est) correct =
           Inr (0, ''Invalid units: '' @ fmt env (unit est) @ '' and '' @ fmt env (unit correct)
                   @ ''. Conversion model returned: : '' @ msg)"
proof -
  have c: "convert_units env (unit est) (unit correct) = Inr (PStr (''invalid: '' @ msg))"
    using assms by (simp add: convert_units_def)
  show ?thesis
    using invalid_message_classified [of msg]
    by (simp add: c calculate_score_def)
qed

theorem convert_units_eval_failure_witness:
  "py_eval (scripted_env ''3600 *'' (Raises ''invalid syntax (<string>, line 1)'') :: int scorer_env)
        ''3600 *'' = Raises ''invalid syntax (<string>, line 1)''
   \<and> calculate_score (scripted_env ''3600 *'' (Raises ''invalid syntax (<string>, line 1)''))
        (Inr (estimate_of 1 2 3 ''h'')) (estimate_of (3000::int) 7000 9000 ''s'')
     = Inr (0, ''Invalid units: h and s. Conversion model returned: : invalid syntax (<string>, line 1)'')"
proof -
  let ?env = "scripted_env ''3600 *'' (Raises ''invalid syntax (<string>, line 1)'') :: int scorer_env"
  let ?est = "estimate_of (1::int) 2 3 ''h''"
  let ?ref = "estimate_of (3000::int) 7000 9000 ''s''"
  have h: "completion ?env (fmt ?env (unit ?est)) (fmt ?env (unit ?ref)) = ''3600 *''"
    by (simp add: scripted_env_def)
  have e: "py_eval ?env ''3600 *'' = Raises ''invalid syntax (<string>, line 1)''"
    by (simp add: scripted_env_def)
  show ?thesis
    using convert_units_eval_failure [OF h _ _ e] e
    by (simp add: estimate_of_def fmt_def)
qed

text \<open>
  Claim C4 as stated fails: the answer \<open>km\<close> between apostrophes is no arithmetic
  expression, yet \<^verbatim>\<open>eval\<close> returns the string \<open>km\<close> for it, \<^verbatim>\<open>convert_units\<close> hands
  that string on, and \<^verbatim>\<open>calculate_score\<close> raises \<^verbatim>\<open>ValueError\<close> to its caller.
\<close>

theorem string_result_raises_counterexample:
  "convert_units (scripted_env (quoted ''km'') (Returns (PStr ''km''))) (PStr ''m'') (PStr ''km'' :: int pyval)
     = Inr (PStr ''km'')
   \<and> calculate_score (scripted_env (quoted ''km'') (Returns (PStr ''km'')))
        (Inr (estimate_of 1 2 3 ''m'')) (estimate_of (3000::int) 7000 9000 ''km'')
     = Inl (ValueError ''Unexpected response from conversion model: km'')"
  by (simp add: calculate_score_def convert_units_def scripted_env_def estimate_of_def
      fmt_def quoted_def str_strip_def str_lower_def char_lower_def is_space_def startswith_def)

section \<open>Properties of the parser\<close>

lemma takeWhile_until: "c \<notin> set xs \<Longrightarrow> takeWhile (\<lambda>x. x \<noteq> c) (xs @ c # ys) = xs"
  by (induction xs) auto

lemma py_find_first: "c \<notin> set pre \<Longrightarrow> py_find c (pre @ c # rest) = int (length pre)"
  by (simp add: py_find_def takeWhile_until)

lemma py_rfind_last: "c \<notin> set post \<Longrightarrow> py_rfind c (pre @ c # post) = int (length pre)"
proof -
  assume a: "c \<notin> set post"
  have "takeWhile (\<lambda>x. x \<noteq> c) (rev (pre @ c # post)) = rev post"
    using a takeWhile_until [of c "rev post" "rev pre"] by simp
  then show ?thesis by (simp add: py_rfind_def)
qed

lemma json_span_braces:
  assumes "CHR ''{'' \<notin> set pre" and "CHR ''}'' \<notin> set post"
  shows "json_span (pre @ ''{'' @ body @ ''}'' @ post) = ''{'' @ body @ ''}''"
proof -
  have f: "py_find CHR ''{'' (pre @ ''{'' @ body @ ''}'' @ post) = int (length pre)"
    using py_find_first [OF assms(1)] by simp
  have "py_rfind CHR ''}'' ((pre @ ''{'' @ body) @ CHR ''}'' # post) = int (length (pre @ ''{'' @ body))"
    by (rule py_rfind_last [OF assms(2)])
  then have r: "py_rfind CHR ''}'' (pre @ ''{'' @ body @ ''}'' @ post) = int (length pre) + int (length body) + 1"
    by simp
  have n: "nat (2 + int (length body)) = Suc (Suc (length body))"
    by simp
  show ?thesis
    unfolding json_span_def f r by (simp add: py_slice_def Let_def n)
qed

lemma braces_accepted: "startswith (''{'' @ body @ ''}'') ''{'' \<and> endswith (''{'' @ body @ ''}'') ''}''"
  by (simp add: startswith_def endswith_def)

lemma coerce_fields_keys:
  "coerce_fields env fs data = Inr data' \<Longrightarrow> map fst data' = map fst data"
proof (induction fs arbitrary: data)
  case Nil
  then show ?case by simp
next
  case (Cons f fs)
  then show ?case
    by (auto split: option.splits pyval.splits sum.splits pyexc.splits
        simp add: update_keys map_of_eq_None_iff dest!: Cons.IH)
       (metis domI dom_map_of_conv_image_fst list.set_map)+
qed

lemma coerce_fields_ok:
  assumes "\<forall>f\<in>set fs. \<exists>v x. map_of data f = Some v \<and> numeric_value env v = Some x"
  shows "\<exists>data'. coerce_fields env fs data = Inr data' \<and>
           (\<forall>k. map_of data' k =
              (if k \<in> set fs then map_option PNum (numeric_value env (the (map_of data k)))
               else map_of data k))"
  using assms
proof (induction fs arbitrary: data)
  case Nil
  then show ?case by simp
next
  case (Cons f fs)
  from Cons.prems obtain v x where v: "map_of data f = Some v" "numeric_value env v = Some x"
    by auto
  show ?case
  proof (cases "\<exists>y. v = PNum y")
    case True
    then have step: "coerce_fields env (f # fs) data = coerce_fields env fs data"
      using v by auto
    have "\<forall>g\<in>set fs. \<exists>v x. map_of data g = Some v \<and> numeric_value env v = Some x"
      using Cons.prems by simp
    from Cons.IH [OF this] obtain data' where d: "coerce_fields env fs data = Inr data'"
      "\<forall>k. map_of data' k = (if k \<in> set fs then map_option PNum (numeric_value env (the (map_of data k))) else map_of data k)"
      by blast
    show ?thesis
      using d v True unfolding step by (auto simp add: numeric_value_def)
  next
    case False
    let ?d1 = "AList.update f (PNum x) data"
    have fl: "py_float env v = Inr x"
      using v False by (auto simp add: py_float_def numeric_value_def split: pyval.splits option.splits)
    have step: "coerce_fields env (f # fs) data = coerce_fields env fs ?d1"
      using v False fl by (cases v) auto
    have m1: "\<And>k. map_of ?d1 k = (if k = f then Some (PNum x) else map_of data k)"
      by (simp add: update_conv')
    have "\<forall>g\<in>set fs. \<exists>v x. map_of ?d1 g = Some v \<and> numeric_value env v = Some x"
      using Cons.prems by (auto simp add: m1 numeric_value_def)
    from Cons.IH [OF this] obtain data' where d: "coerce_fields env fs ?d1 = Inr data'"
      "\<forall>k. map_of data' k = (if k \<in> set fs then map_option PNum (numeric_value env (the (map_of ?d1 k))) else map_of ?d1 k)"
      by blast
    show ?thesis
      using d v unfolding step by (auto simp add: m1 numeric_value_def)
  qed
qed


lemma parse_estimate_loaded:
  assumes "CHR ''{'' \<notin> set pre" and "CHR ''}'' \<notin> set post"
    and "json_loads env (''{'' @ body @ ''}'') = Some data"
  shows "parse_estimate env (pre @ ''{'' @ body @ ''}'' @ post) =
     (if ''lower'' \<notin> set (map fst data) \<or> ''value'' \<notin> set (map fst data)
         \<or> ''upper'' \<notin> set (map fst data) \<or> ''unit'' \<notin> set (map fst data) then
        Inl (ValueError (''Text is missing the fields: '' @ py_join '', '' (extra_keys env data)))
      else
        (case coerce_fields env (set_iter env numerical_fields) data of
           Inl e \<Rightarrow> Inl e
         | Inr coerced \<Rightarrow> Estimate_init coerced))"
  using braces_accepted [of body] assms(3)
  by (simp add: parse_estimate_def json_span_braces [OF assms(1,2)] Let_def del: append.simps)

lemma key_present: "map_of data k = Some v \<Longrightarrow> k \<in> set (map fst data)"
  by (metis domI dom_map_of_conv_image_fst list.set_map)

lemma parse_estimate_success:
  assumes "CHR ''{'' \<notin> set pre" and "CHR ''}'' \<notin> set post"
    and "json_loads env (''{'' @ body @ ''}'') = Some data"
    and "set (map fst data) \<subseteq> set estimate_fields"
    and "set (set_iter env numerical_fields) = set numerical_fields"
    and "map_of data ''lower'' = Some vl" and "numeric_value env vl = Some l"
    and "map_of data ''value'' = Some vv" and "numeric_value env vv = Some v"
    and "map_of data ''upper'' = Some vu" and "numeric_value env vu = Some u"
    and "map_of data ''unit'' = Some un"
  shows "parse_estimate env (pre @ ''{'' @ body @ ''}'' @ post) =
     Inr \<lparr>lower = PNum l, value = PNum v, upper = PNum u, unit = un,
          name = (case map_of data ''name'' of Some x \<Rightarrow> x | None \<Rightarrow> PNone),
          reasoning_trace = (case map_of data ''reasoning_trace'' of Some x \<Rightarrow> x | None \<Rightarrow> PNone)\<rparr>"
proof -
  let ?fs = "set_iter env numerical_fields"
  have present: "''lower'' \<in> set (map fst data)" "''value'' \<in> set (map fst data)"
    "''upper'' \<in> set (map fst data)" "''unit'' \<in> set (map fst data)"
    using key_present [OF assms(6)] key_present [OF assms(8)] key_present [OF assms(10)]
      key_present [OF assms(12)] by simp_all
  have iter: "set ?fs = {''lower'', ''value'', ''upper''}"
    using assms(5) by (simp add: numerical_fields_def)
  have "\<forall>f\<in>set ?fs. \<exists>w x. map_of data f = Some w \<and> numeric_value env w = Some x"
    unfolding iter using assms(6-11) by auto
  from coerce_fields_ok [OF this] obtain data' where c: "coerce_fields env ?fs data = Inr data'"
    and m: "\<And>k. map_of data' k =
      (if k \<in> set ?fs then map_option PNum (numeric_value env (the (map_of data k))) else map_of data k)"
    by blast
  have keys: "map fst data' = map fst data"
    using coerce_fields_keys [OF c] .
  have known: "filter (\<lambda>k. k \<notin> set estimate_fields) (map fst data') = []"
    using assms(4) unfolding keys by (auto simp add: filter_empty_conv)
  have fields: "map_of data' ''lower'' = Some (PNum l)" "map_of data' ''value'' = Some (PNum v)"
    "map_of data' ''upper'' = Some (PNum u)" "map_of data' ''unit'' = Some un"
    "map_of data' ''name'' = map_of data ''name''"
    "map_of data' ''reasoning_trace'' = map_of data ''reasoning_trace''"
    using assms(6-12) by (simp_all add: m iter)
  have "Estimate_init data' =
     Inr \<lparr>lower = PNum l, value = PNum v, upper = PNum u, unit = un,
          name = (case map_of data ''name'' of Some x \<Rightarrow> x | None \<Rightarrow> PNone),
          reasoning_trace = (case map_of data ''reasoning_trace'' of Some x \<Rightarrow> x | None \<Rightarrow> PNone)\<rparr>"
    unfolding Estimate_init_def known fields by simp
  then show ?thesis
    unfolding parse_estimate_loaded [OF assms(1-3)] using present by (simp add: c)
qed


section \<open>Claims about the parser and the evaluation run\<close>





text \<open>
  Claim C9, as the code has it. For a text whose object has the four required keys
  with numbers or strings that \<^verbatim>\<open>float\<close> accepts, and no key besides the six
  fields of \<^verbatim>\<open>Estimate\<close>, \<^verbatim>\<open>parse_estimate\<close> succeeds and returns the three numbers
  as they are, whatever their order: nothing compares \<open>lower\<close>, \<open>value\<close> and
  \<open>upper\<close>.
\<close>

theorem parse_estimate_ignores_ordering:
  assumes "CHR ''{'' \<notin> set pre" and "CHR ''}'' \<notin> set post"
    and "json_loads env (''{'' @ body @ ''}'') = Some data"
    and "set (map fst data) \<subseteq> set estimate_fields"
    and "set (set_iter env numerical_fields) = set numerical_fields"
    and "map_of data ''lower'' = Some vl" and "numeric_value env vl = Some l"
    and "map_of data ''value'' = Some vv" and "numeric_value env vv = Some v"
    and "map_of data ''upper'' = Some vu" and "numeric_value env vu = Some u"
    and "map_of data ''unit'' = Some un"
  shows "\<exists>e. parse_estimate env (pre @ ''{'' @ body @ ''}'' @ post) = Inr e
           \<and> lower e = PNum l \<and> value e = PNum v \<and> upper e = PNum u \<and> unit e = un"
  using parse_estimate_success [OF assms] by simp

theorem parse_estimate_ignores_ordering_witness:
  \<open>\<exists>e. parse_estimate
         (scripted_parser ''{"lower": 9, "value": 5, "upper": 1, "unit": "km", "name": "guess"}''
            [(''lower'', PNum 9), (''value'', PNum 5), (''upper'', PNum 1), (''unit'', PStr ''km''),
             (''name'', PStr ''guess'')] [])
         ''{"lower": 9, "value": 5, "upper": 1, "unit": "km", "name": "guess"}'' = Inr e
       \<and> lower e = PNum (9::real) \<and> value e = PNum 5 \<and> upper e = PNum 1 \<and> unit e = PStr ''km''\<close>
proof -
  let ?body = \<open>''"lower": 9, "value": 5, "upper": 1, "unit": "km", "name": "guess"''\<close>
  let ?data = "[(''lower'', PNum 9), (''value'', PNum 5), (''upper'', PNum 1), (''unit'', PStr ''km''),
             (''name'', PStr ''guess'')] :: (string \<times> real pyval) list"
  let ?env = "scripted_parser (''{'' @ ?body @ ''}'') ?data []"
  have a: "CHR ''{'' \<notin> set ''''" by simp
  have b: "CHR ''}'' \<notin> set ''''" by simp
  have c: "json_loads ?env (''{'' @ ?body @ ''}'') = Some ?data"
    by (simp add: scripted_parser_def)
  have d: "set (map fst ?data) \<subseteq> set estimate_fields"
    by (simp add: estimate_fields_def)
  have e: "set (set_iter ?env numerical_fields) = set numerical_fields"
    by (simp add: scripted_parser_def)
  have n: "numeric_value ?env (PNum 9) = Some 9" "numeric_value ?env (PNum 5) = Some 5"
    "numeric_value ?env (PNum 1) = Some 1"
    by (simp_all add: numeric_value_def)
  have m: "map_of ?data ''lower'' = Some (PNum 9)" "map_of ?data ''value'' = Some (PNum 5)"
    "map_of ?data ''upper'' = Some (PNum 1)" "map_of ?data ''unit'' = Some (PStr ''km'')"
    by simp_all
  show ?thesis
    using parse_estimate_ignores_ordering [OF a b c d e m(1) n(1) m(2) n(2) m(3) n(3) m(4)]
    by simp
qed

lemmas parse_eval_simps =
  parse_estimate_def json_span_def py_find_def py_rfind_def py_slice_def startswith_def endswith_def
  scripted_parser_def extra_keys_def required_fields_def numerical_fields_def estimate_fields_def
  Estimate_init_def py_float_def type_name_def quoted_def numeric_value_def Let_def

text \<open>
  Claim C9 as stated fails: an object with the four required keys, numeric values in
  ascending order, and one more key \<open>confidence\<close> is not parsed to an Estimate; the
  constructor raises \<^verbatim>\<open>TypeError\<close>.
\<close>

theorem extra_key_rejected_counterexample:
  \<open>parse_estimate
     (scripted_parser ''{"lower": 1, "value": 2, "upper": 3, "unit": "kg", "confidence": 1}''
        [(''lower'', PNum 1), (''value'', PNum 2), (''upper'', PNum 3), (''unit'', PStr ''kg''),
         (''confidence'', PNum (1::real))] [])
     ''{"lower": 1, "value": 2, "upper": 3, "unit": "kg", "confidence": 1}''
   = Inl (TypeError (''Estimate.__init__() got an unexpected keyword argument '' @ quoted ''confidence''))\<close>
  by (simp add: parse_eval_simps)






text \<open>
  Claim C5 at a document whose \<open>lower\<close> is \<^verbatim>\<open>null\<close>: \<^verbatim>\<open>float(None)\<close> raises
  \<^verbatim>\<open>TypeError\<close>, which the handler for \<^verbatim>\<open>ValueError\<close> does not catch, so the parser
  fails with that \<^verbatim>\<open>TypeError\<close> and not with the error that names the field.
\<close>

theorem parse_estimate_null_field:
  \<open>parse_estimate
     (scripted_parser ''{"lower": null, "value": 1, "upper": 2, "unit": "kg"}''
        [(''lower'', PNone), (''value'', PNum 1), (''upper'', PNum 2), (''unit'', PStr ''kg'' :: real pyval)] [])
     ''{"lower": null, "value": 1, "upper": 2, "unit": "kg"}''
   = Inl (TypeError (''float() argument must be a string or a real number, not '' @ quoted ''NoneType''))\<close>
  by (simp add: parse_eval_simps)

theorem parse_estimate_null_field_witness:
  \<open>startswith (json_span ''{"lower": null, "value": 1, "upper": 2, "unit": "kg"}'') ''{''
   \<and> endswith (json_span ''{"lower": null, "value": 1, "upper": 2, "unit": "kg"}'') ''}''
   \<and> parse_estimate
       (scripted_parser ''{"lower": null, "value": 1, "upper": 2, "unit": "kg"}''
          [(''lower'', PNone), (''value'', PNum 1), (''upper'', PNum 2), (''unit'', PStr ''kg'' :: real pyval)] [])
       ''{"lower": null, "value": 1, "upper": 2, "unit": "kg"}''
     \<noteq> Inl (ValueError (''Field '' @ quoted ''lower'' @ '' is not a valid number''))\<close>
  using parse_estimate_null_field
  by (simp add: json_span_def py_find_def py_rfind_def py_slice_def startswith_def endswith_def)

text \<open>
  Claim C3 at the empty dataset: there is no result to unpack, the run fails with
  \<^verbatim>\<open>ValueError\<close> before the guarded division is reached, and no score is returned.
\<close>

theorem generate_eval_result_empty:
  "generate_eval_result senv (renv\<lparr>load_eval := []\<rparr>) estimator =
     Inl (ValueError ''not enough values to unpack (expected 2, got 0)'')"
  by (simp add: generate_eval_result_def unzip_results_def)

section \<open>The aggregate score of a run that returns\<close>

text \<open>
  Every score is 0 or 1, so a run that returns has a row and reports the share of
  the rows scored 1.
\<close>

lemma calculate_score_binary:
  "calculate_score env estimated correct = Inr (s, d) \<Longrightarrow> s = 0 \<or> s = 1"
  by (auto simp add: calculate_score_def split: sum.splits pyval.splits if_splits)

lemma process_estimate_binary:
  "process_estimate senv renv estimator row = Inr (q, s) \<Longrightarrow> s = 0 \<or> s = 1"
  by (auto simp add: process_estimate_def split: prod.splits sum.splits dest: calculate_score_binary)

lemma process_all_results:
  "process_all f xs = Inr rs \<Longrightarrow> length rs = length xs \<and> (\<forall>r\<in>set rs. \<exists>x\<in>set xs. f x = Inr r)"
proof (induction xs arbitrary: rs)
  case Nil
  then show ?case by simp
next
  case (Cons x xs)
  then show ?case by (auto split: sum.splits)
qed

lemma sum_list_binary:
  "\<forall>s\<in>set ss. s = 0 \<or> s = (1::int) \<Longrightarrow> sum_list ss = int (length (filter (\<lambda>s. s = 1) ss))"
  by (induction ss) auto

lemma count_correct:
  "length (filter (\<lambda>(q, s). s = (1::int)) (zip (map fst rs) (map snd rs)))
     = length (filter (\<lambda>s. s = 1) (map snd rs))"
  by (induction rs) auto

lemma generate_eval_result_score:
  assumes "generate_eval_result senv renv estimator = Inr res"
  shows "load_eval renv \<noteq> []
       \<and> score res = real (length (queries_correct res)) / real (length (load_eval renv))"
proof -
  from assms obtain rs where rs: "process_all (process_estimate senv renv estimator) (load_eval renv) = Inr rs"
    by (auto simp add: generate_eval_result_def Let_def split: sum.splits)
  from assms rs have ne: "rs \<noteq> []"
    by (auto simp add: generate_eval_result_def Let_def unzip_results_def)
  from process_all_results [OF rs] have len: "length rs = length (load_eval renv)"
    and each: "\<forall>r\<in>set rs. \<exists>x\<in>set (load_eval renv). process_estimate senv renv estimator x = Inr r"
    by simp_all
  have bin: "\<forall>s\<in>set (map snd rs). s = 0 \<or> s = 1"
    using each process_estimate_binary by (metis (no_types, lifting) imageE list.set_map prod.collapse)
  have data: "load_eval renv \<noteq> []" using ne len by auto
  have res: "res = \<lparr>estimator_name' = name' estimator @ ''_'' @ time_stamp renv,
      score = real_of_int (sum_list (map snd rs)) / real (length (load_eval renv)),
      queries_incorrect = map fst (filter (\<lambda>(query, sc). sc = 0) (zip (map fst rs) (map snd rs))),
      queries_correct = map fst (filter (\<lambda>(query, sc). sc = 1) (zip (map fst rs) (map snd rs)))\<rparr>"
    using assms rs ne data
    by (cases rs) (auto simp add: generate_eval_result_def Let_def unzip_results_def)
  show ?thesis
    using data by (simp add: res sum_list_binary [OF bin] count_correct)
qed

end
